theory Spec2Isabelle
  imports Main
begin

section \<open>Python strings\<close>

text \<open>
  A Python \<^verbatim>\<open>str\<close> is a sequence of Unicode code points; it is modelled as the list of
  its code points, so that \<^verbatim>\<open>len\<close> is \<open>length\<close> and \<^verbatim>\<open>+\<close> is \<open>@\<close>. Every string
  literal of the source is written out as its code points.
\<close>

type_synonym pystr = "nat list"

text \<open>\<^verbatim>\<open>s.startswith(p)\<close> and the substring test \<^verbatim>\<open>p in s\<close>.\<close>

fun startswith :: "pystr \<Rightarrow> pystr \<Rightarrow> bool" where
  "startswith s [] = True"
| "startswith [] (p # ps) = False"
| "startswith (c # cs) (p # ps) = (c = p \<and> startswith cs ps)"

fun contains :: "pystr \<Rightarrow> pystr \<Rightarrow> bool" where
  "contains [] p = (p = [])"
| "contains (c # cs) p = (startswith (c # cs) p \<or> contains cs p)"

text \<open>
  \<^verbatim>\<open>any(word in s for word in words)\<close>: the generator is consumed from the left and stops
  at the first word found.
\<close>

fun any_in :: "pystr list \<Rightarrow> pystr \<Rightarrow> bool" where
  "any_in [] s = False"
| "any_in (w # ws) s = (contains s w \<or> any_in ws s)"

text \<open>
  \<^verbatim>\<open>str.isspace\<close> of one code point, and \<^verbatim>\<open>s.strip()\<close>, which removes the white space at
  both ends.
\<close>

definition isspace :: "nat \<Rightarrow> bool" where
  "isspace c = (c \<in> set [9, 10, 11, 12, 13, 28, 29, 30, 31, 32, 133, 160, 5760, 8192, 8193,
     8194, 8195, 8196, 8197, 8198, 8199, 8200, 8201, 8202, 8232, 8233, 8239, 8287, 12288])"

definition strip :: "pystr \<Rightarrow> pystr" where
  "strip s = rev (dropWhile isspace (rev (dropWhile isspace s)))"

text \<open>
  \<^verbatim>\<open>s.replace(old, "")\<close>: the occurrences of \<open>old\<close> are removed from the left, without
  overlap, and what is left is not scanned again. An empty \<open>old\<close> removes nothing.
\<close>

fun remove_all :: "pystr \<Rightarrow> pystr \<Rightarrow> pystr" where
  "remove_all old [] = []"
| "remove_all old (c # cs) =
     (if old \<noteq> [] \<and> startswith (c # cs) old
      then remove_all old (drop (length old) (c # cs))
      else c # remove_all old cs)"

text \<open>
  \<^verbatim>\<open>str.lower\<close> is the Unicode lower-casing of the Python runtime. The program is
  modelled over any such function (the field \<open>str_lower\<close> of the world below). On a string
  whose only cased letters are ASCII it is \<open>ascii_lower\<close>, which the concrete worlds use.
\<close>

definition ascii_lower :: "pystr \<Rightarrow> pystr" where
  "ascii_lower s = map (\<lambda>c. if 65 \<le> c \<and> c \<le> 90 then c + 32 else c) s"

section \<open>The rule-based responder\<close>

text \<open>The keyword lists and canned replies of \<^verbatim>\<open>_generate_fallback_response\<close>.\<close>

text \<open>\<^verbatim>\<open>openai_service.py\<close>, line 257.\<close>

definition FALLBACK_GREETING :: pystr where
  "FALLBACK_GREETING = [20320, 22909, 65281, 25105, 26159, 20320, 30340, 26234, 33021,
     21161, 25163, 12290, 38614, 28982, 39640, 32026, 32, 65, 73, 32, 21151, 33021, 26283,
     26178, 28961, 27861, 20351, 29992, 65292, 20294, 25105, 20173, 28982, 21487, 20197,
     21332, 21161, 20320, 34389, 29702, 19968, 20123, 22522, 26412, 21839, 38988, 12290]"

text \<open>\<^verbatim>\<open>openai_service.py\<close>, line 261.\<close>

definition FALLBACK_HELP :: pystr where
  "FALLBACK_HELP = [25105, 21487, 20197, 25552, 20379, 20197, 19979, 21332, 21161, 65306,
     10, 8226, 32, 22238, 31572, 24120, 35211, 21839, 38988, 10, 8226, 32, 25552, 20379,
     22522, 26412, 36039, 35338, 10, 8226, 32, 36914, 34892, 31777, 21934, 23565, 35441, 10,
     8226, 32, 21332, 21161, 20351, 29992, 35498, 26126, 10, 10, 30446, 21069, 32, 65, 73,
     32, 26381, 21209, 27491, 22312, 32173, 35703, 20013, 65292, 23436, 25972, 21151, 33021,
     23559, 31245, 24460, 24674, 24489, 12290]"

text \<open>\<^verbatim>\<open>openai_service.py\<close>, line 271.\<close>

definition FALLBACK_TIME :: pystr where
  "FALLBACK_TIME = [25265, 27465, 65292, 25105, 30446, 21069, 28961, 27861, 21462, 24471,
     21363, 26178, 26178, 38291, 36039, 35338, 12290, 35531, 27298, 26597, 20320, 30340,
     35037, 32622, 26178, 38291, 25110, 31245, 24460, 20877, 35430, 12290]"

text \<open>\<^verbatim>\<open>openai_service.py\<close>, line 275.\<close>

definition FALLBACK_WEATHER :: pystr where
  "FALLBACK_WEATHER = [25265, 27465, 65292, 25105, 30446, 21069, 28961, 27861, 25552, 20379,
     22825, 27683, 36039, 35338, 12290, 24314, 35696, 20320, 26597, 30475, 22825, 27683,
     25033, 29992, 31243, 24335, 25110, 27683, 35937, 32178, 31449, 12290]"

text \<open>\<^verbatim>\<open>openai_service.py\<close>, line 279.\<close>

definition FALLBACK_THANKS :: pystr where
  "FALLBACK_THANKS = [19981, 23458, 27683, 65281, 24456, 39640, 33288, 33021, 28858, 20320,
     26381, 21209, 12290, 22914, 26377, 20854, 20182, 21839, 38988, 65292, 38568, 26178,
     21487, 20197, 35426, 21839, 25105, 12290]"

text \<open>\<^verbatim>\<open>openai_service.py\<close>, line 283.\<close>

definition FALLBACK_GOODBYE :: pystr where
  "FALLBACK_GOODBYE = [20877, 35211, 65281, 26399, 24453, 19979, 27425, 28858, 20320, 26381,
     21209, 12290, 31069, 20320, 26377, 32654, 22909, 30340, 19968, 22825, 65281]"

text \<open>\<^verbatim>\<open>openai_service.py\<close>, line 286.\<close>

definition FALLBACK_DEFAULT :: pystr where
  "FALLBACK_DEFAULT = [25105, 25910, 21040, 20102, 20320, 30340, 35338, 24687, 65292, 20294,
     30446, 21069, 39640, 32026, 32, 65, 73, 32, 21151, 33021, 26283, 26178, 28961, 27861,
     20351, 29992, 12290, 35531, 31245, 24460, 20877, 35430, 65292, 25110, 32773, 35426,
     21839, 19968, 20123, 22522, 26412, 21839, 38988, 65292, 25105, 26371, 30433, 21147,
     21332, 21161, 20320, 12290]"

text \<open>\<^verbatim>\<open>openai_service.py\<close>, line 256.\<close>

definition greeting_words :: "pystr list" where
  "greeting_words = [[20320, 22909], [21992], [104, 105], [104, 101, 108, 108, 111], [21704,
     22217]]"

text \<open>\<^verbatim>\<open>openai_service.py\<close>, line 260.\<close>

definition help_words :: "pystr list" where
  "help_words = [[24171, 21161], [24171, 24537], [104, 101, 108, 112], [35498, 26126],
     [21151, 33021]]"

text \<open>\<^verbatim>\<open>openai_service.py\<close>, line 270.\<close>

definition time_words :: "pystr list" where
  "time_words = [[26178, 38291], [26085, 26399], [29694, 22312], [116, 105, 109, 101], [100,
     97, 116, 101]]"

text \<open>\<^verbatim>\<open>openai_service.py\<close>, line 274.\<close>

definition weather_words :: "pystr list" where
  "weather_words = [[22825, 27683], [27683, 28331], [119, 101, 97, 116, 104, 101, 114],
     [19979, 38632]]"

text \<open>\<^verbatim>\<open>openai_service.py\<close>, line 278.\<close>

definition thanks_words :: "pystr list" where
  "thanks_words = [[35613, 35613], [24863, 35613], [116, 104, 97, 110, 107], [35613]]"

text \<open>\<^verbatim>\<open>openai_service.py\<close>, line 282.\<close>

definition goodbye_words :: "pystr list" where
  "goodbye_words = [[20877, 35211], [25520, 25520], [98, 121, 101], [103, 111, 111, 100, 98,
     121, 101], [25308, 25308]]"

text \<open>
  \<^verbatim>\<open>_generate_fallback_response(user_message)\<close>; \<open>lower\<close> is \<^verbatim>\<open>str.lower\<close>.
\<close>

definition generate_fallback_response :: "(pystr \<Rightarrow> pystr) \<Rightarrow> pystr \<Rightarrow> pystr" where
  "generate_fallback_response lower user_message =
     (let message_lower = lower user_message in
      if any_in greeting_words message_lower then FALLBACK_GREETING
      else if any_in help_words message_lower then FALLBACK_HELP
      else if any_in time_words message_lower then FALLBACK_TIME
      else if any_in weather_words message_lower then FALLBACK_WEATHER
      else if any_in thanks_words message_lower then FALLBACK_THANKS
      else if any_in goodbye_words message_lower then FALLBACK_GOODBYE
      else FALLBACK_DEFAULT)"

section \<open>The world outside the program\<close>

text \<open>
  The values a JSON body decodes to (\<^verbatim>\<open>response.json()\<close>); numbers are integers, an
  object is the association list of its members.
\<close>

datatype json =
    JNull
  | JBool bool
  | JNum int
  | JStr pystr
  | JArr "json list"
  | JObj "(pystr \<times> json) list"

text \<open>
  What a call of \<^verbatim>\<open>requests.get\<close> or \<^verbatim>\<open>requests.post\<close> does: it raises (no connection,
  time-out), or it returns a response with a status code and a body; the body is \<open>None\<close>
  when \<^verbatim>\<open>response.json()\<close> raises on it.
\<close>

datatype http_result = HttpRaised | HttpResponse nat "json option"

text \<open>
  \<^verbatim>\<open>openai_client.chat.completions.create\<close> raises or returns a completion; of the
  completion the program reads \<^verbatim>\<open>choices[i].message.content\<close>, a string or \<^verbatim>\<open>None\<close>.
\<close>

datatype openai_result = OpenAIRaised | Completion "pystr option list"

text \<open>
  \<^verbatim>\<open>genai.GenerativeModel(name).generate_content(prompt)\<close> followed by \<^verbatim>\<open>response.text\<close>:
  one of them raises, or the text is read.
\<close>

datatype gemini_result = GeminiRaised | GeminiText pystr

text \<open>
  The fields the webhook handler reads of an event of the LINE SDK. The \<^verbatim>\<open>source\<close> of
  an event is \<^verbatim>\<open>None\<close> when the request has none; a source has a \<^verbatim>\<open>user_id\<close>, which
  is \<^verbatim>\<open>None\<close> when the platform does not give the user.
\<close>

record message =
  msg_type :: pystr
  msg_text :: pystr

datatype source = Source "pystr option"

record event =
  event_type :: pystr
  event_message :: message
  event_source :: "source option"
  event_reply_token :: pystr

text \<open>An exception is modelled by its message, \<^verbatim>\<open>str(e)\<close>.\<close>

datatype exn = Exception pystr

text \<open>
  \<^verbatim>\<open>WebhookParser.parse\<close> raises \<^verbatim>\<open>InvalidSignatureError\<close>, raises something else, or
  returns the events; \<^verbatim>\<open>LineBotApi.reply_message\<close> raises \<^verbatim>\<open>LineBotApiError\<close> (with its
  \<^verbatim>\<open>message\<close>), raises something else, or returns.
\<close>

datatype parse_result = InvalidSignatureError | ParseRaised exn | Events "event list"

datatype reply_result = LineBotApiError pystr | ReplyRaised exn | ReplySent

text \<open>
  Every call the program makes to a library client or over the network, with the
  arguments that vary.
\<close>

datatype call =
    OllamaTags pystr
  | OpenAIChat pystr pystr
  | GeminiGenerate pystr pystr
  | HFWhoami pystr
  | HFGenerate pystr pystr pystr
  | OllamaGenerate pystr pystr
  | LineParse pystr pystr
  | LineReply pystr "pystr option"

text \<open>
  The calls made so far, oldest first. The world answers a call knowing the calls before
  it, so two equal calls may be answered differently.
\<close>

type_synonym trace = "call list"

record world =
  str_lower :: "pystr \<Rightarrow> pystr"
  requests :: "trace \<Rightarrow> call \<Rightarrow> http_result"
  openai :: "trace \<Rightarrow> call \<Rightarrow> openai_result"
  gemini :: "trace \<Rightarrow> call \<Rightarrow> gemini_result"
  line_parse :: "trace \<Rightarrow> call \<Rightarrow> parse_result"
  line_reply :: "trace \<Rightarrow> call \<Rightarrow> reply_result"

section \<open>The AI service\<close>

text \<open>
  The fields \<^verbatim>\<open>OpenAIService.__init__\<close> reads from the environment;
  \<^verbatim>\<open>openai_client\<close> is not \<^verbatim>\<open>None\<close> exactly when \<open>openai_key\<close> is not empty.
\<close>

record service =
  openai_key :: pystr
  ollama_url :: pystr
  hf_token :: pystr
  gemini_key :: pystr
  anthropic_key :: pystr

definition openai_client :: "service \<Rightarrow> bool" where
  "openai_client self = (openai_key self \<noteq> [])"

text \<open>\<^verbatim>\<open>_check_ollama\<close>; the bare \<^verbatim>\<open>except\<close> turns every exception into \<^verbatim>\<open>False\<close>.\<close>

definition check_ollama :: "world \<Rightarrow> service \<Rightarrow> trace \<Rightarrow> bool \<times> trace" where
  "check_ollama w self tr =
     (let c = OllamaTags (ollama_url self);
          alive = (case requests w tr c of
                     HttpRaised \<Rightarrow> False
                   | HttpResponse status_code body \<Rightarrow> status_code = 200)
      in (alive, tr @ [c]))"

text \<open>
  \<^verbatim>\<open>is_configured\<close>, as the truth value of what it returns; \<^verbatim>\<open>or\<close> evaluates
  \<^verbatim>\<open>_check_ollama()\<close> only when everything before it is false.
\<close>

definition is_configured :: "world \<Rightarrow> service \<Rightarrow> trace \<Rightarrow> bool \<times> trace" where
  "is_configured w self tr =
     (if openai_client self \<or> hf_token self \<noteq> [] \<or> gemini_key self \<noteq> []
         \<or> anthropic_key self \<noteq> []
      then (True, tr)
      else check_ollama w self tr)"

subsection \<open>The Hugging Face adapter\<close>

text \<open>\<^verbatim>\<open>openai_service.py\<close>, line 81.\<close>

definition hf_inputs_prefix :: pystr where
  "hf_inputs_prefix = [21839, 38988, 65306]"

text \<open>\<^verbatim>\<open>openai_service.py\<close>, line 81.\<close>

definition hf_inputs_suffix :: pystr where
  "hf_inputs_suffix = [10, 22238, 31572, 65306]"

text \<open>\<^verbatim>\<open>openai_service.py\<close>, line 100: \<^verbatim>\<open><|endoftext|>\<close>.\<close>

definition hf_end_marker :: pystr where
  "hf_end_marker = [60, 124, 101, 110, 100, 111, 102, 116, 101, 120, 116, 124, 62]"

text \<open>\<^verbatim>\<open>openai_service.py\<close>, line 101.\<close>

definition hf_reply_prefix :: pystr where
  "hf_reply_prefix = [65, 73, 32, 22238, 25033, 65306]"

text \<open>\<^verbatim>\<open>openai_service.py\<close>, line 97: \<^verbatim>\<open>generated_text\<close>.\<close>

definition key_generated_text :: pystr where
  "key_generated_text = [103, 101, 110, 101, 114, 97, 116, 101, 100, 95, 116, 101, 120,
     116]"

text \<open>\<^verbatim>\<open>openai_service.py\<close>, line 69: \<^verbatim>\<open>bigscience/bloom-560m\<close>, \<^verbatim>\<open>distilgpt2\<close>, \<^verbatim>\<open>gpt2\<close>.\<close>

definition hf_models :: "pystr list" where
  "hf_models = [[98, 105, 103, 115, 99, 105, 101, 110, 99, 101, 47, 98, 108, 111, 111, 109,
     45, 53, 54, 48, 109], [100, 105, 115, 116, 105, 108, 103, 112, 116, 50], [103, 112,
     116, 50]]"

text \<open>
  The body of the branch \<^verbatim>\<open>if response.status_code == 200\<close> after \<^verbatim>\<open>response.json()\<close>
  has returned \<open>result\<close>: the reply when the \<^verbatim>\<open>return\<close> is reached, \<open>None\<close> when the branch
  is left without it. That happens when a test fails, and when an exception is raised for
  the inner handler (\<^verbatim>\<open>result[0]\<close> has no \<^verbatim>\<open>get\<close>, a \<^verbatim>\<open>generated_text\<close> that is not a
  string and not false has no \<^verbatim>\<open>strip\<close>).
\<close>

fun hf_candidate :: "json \<Rightarrow> pystr option" where
  "hf_candidate (JArr (JObj d # rest)) =
     (case (case map_of d key_generated_text of None \<Rightarrow> JStr [] | Some v \<Rightarrow> v) of
        JStr generated_text \<Rightarrow>
          if generated_text \<noteq> [] \<and> length (strip generated_text) > 5
          then Some (hf_reply_prefix @ remove_all hf_end_marker (strip generated_text))
          else None
      | _ \<Rightarrow> None)"
| "hf_candidate _ = None"

text \<open>The loop \<^verbatim>\<open>for model in models\<close>, on the models still to try.\<close>

fun hf_try_models :: "world \<Rightarrow> service \<Rightarrow> pystr \<Rightarrow> pystr list \<Rightarrow> trace \<Rightarrow> pystr option \<times> trace" where
  "hf_try_models w self user_message [] tr = (None, tr)"
| "hf_try_models w self user_message (model # models) tr =
     (let c = HFGenerate model (hf_token self)
                (hf_inputs_prefix @ user_message @ hf_inputs_suffix);
          tr' = tr @ [c]
      in case requests w tr c of
           HttpRaised \<Rightarrow> hf_try_models w self user_message models tr'
         | HttpResponse status_code body \<Rightarrow>
             if status_code = 200 then
               (case body of
                  None \<Rightarrow> hf_try_models w self user_message models tr'
                | Some result \<Rightarrow>
                    (case hf_candidate result of
                       Some reply \<Rightarrow> (Some reply, tr')
                     | None \<Rightarrow> hf_try_models w self user_message models tr'))
             else if status_code = 503 then hf_try_models w self user_message models tr'
             else if status_code = 401 then (None, tr')
             else hf_try_models w self user_message models tr')"

text \<open>\<^verbatim>\<open>_generate_with_huggingface\<close>; \<open>None\<close> is Python's \<^verbatim>\<open>None\<close>.\<close>

definition generate_with_huggingface ::
  "world \<Rightarrow> service \<Rightarrow> pystr \<Rightarrow> pystr \<Rightarrow> trace \<Rightarrow> pystr option \<times> trace" where
  "generate_with_huggingface w self user_message system_prompt tr =
     (if hf_token self = [] then (None, tr)
      else
        let c = HFWhoami (hf_token self); tr' = tr @ [c]
        in case requests w tr c of
             HttpRaised \<Rightarrow> (None, tr')
           | HttpResponse status_code body \<Rightarrow>
               if status_code \<noteq> 200 then (None, tr')
               else hf_try_models w self user_message hf_models tr')"

subsection \<open>The Gemini adapter\<close>

text \<open>\<^verbatim>\<open>openai_service.py\<close>, line 136.\<close>

definition gemini_prompt_middle :: pystr where
  "gemini_prompt_middle = [10, 10, 29992, 25142, 21839, 38988, 65306]"

text \<open>\<^verbatim>\<open>openai_service.py\<close>, line 136.\<close>

definition gemini_prompt_suffix :: pystr where
  "gemini_prompt_suffix = [10, 10, 35531, 29992, 32321, 39636, 20013, 25991, 22238, 31572,
     65306]"

text \<open>\<^verbatim>\<open>openai_service.py\<close>, line 129: \<^verbatim>\<open>gemini-1.5-flash\<close>, \<^verbatim>\<open>gemini-1.5-pro\<close>, \<^verbatim>\<open>gemini-pro\<close>.\<close>

definition gemini_models :: "pystr list" where
  "gemini_models = [[103, 101, 109, 105, 110, 105, 45, 49, 46, 53, 45, 102, 108, 97, 115,
     104], [103, 101, 109, 105, 110, 105, 45, 49, 46, 53, 45, 112, 114, 111], [103, 101,
     109, 105, 110, 105, 45, 112, 114, 111]]"

fun gemini_try_models :: "world \<Rightarrow> pystr \<Rightarrow> pystr \<Rightarrow> pystr list \<Rightarrow> trace \<Rightarrow> pystr option \<times> trace" where
  "gemini_try_models w user_message system_prompt [] tr = (None, tr)"
| "gemini_try_models w user_message system_prompt (model_name # models) tr =
     (let c = GeminiGenerate model_name
                (system_prompt @ gemini_prompt_middle @ user_message @ gemini_prompt_suffix);
          tr' = tr @ [c]
      in case gemini w tr c of
           GeminiRaised \<Rightarrow> gemini_try_models w user_message system_prompt models tr'
         | GeminiText text \<Rightarrow>
             if text \<noteq> [] then (Some (strip text), tr')
             else gemini_try_models w user_message system_prompt models tr')"

definition generate_with_gemini ::
  "world \<Rightarrow> service \<Rightarrow> pystr \<Rightarrow> pystr \<Rightarrow> trace \<Rightarrow> pystr option \<times> trace" where
  "generate_with_gemini w self user_message system_prompt tr =
     (if gemini_key self = [] then (None, tr)
      else gemini_try_models w user_message system_prompt gemini_models tr)"

subsection \<open>The Ollama adapter\<close>

text \<open>\<^verbatim>\<open>openai_service.py\<close>, line 162.\<close>

definition ollama_prompt_middle :: pystr where
  "ollama_prompt_middle = [10, 10, 85, 115, 101, 114, 58, 32]"

text \<open>\<^verbatim>\<open>openai_service.py\<close>, line 162.\<close>

definition ollama_prompt_suffix :: pystr where
  "ollama_prompt_suffix = [10, 65, 115, 115, 105, 115, 116, 97, 110, 116, 58]"

text \<open>
  \<^verbatim>\<open>openai_service.py\<close>, line 169, and \<^verbatim>\<open>app.py\<close>, line 79:
  \<^verbatim>\<open>response\<close>.
\<close>

definition key_response :: pystr where
  "key_response = [114, 101, 115, 112, 111, 110, 115, 101]"

text \<open>
  \<^verbatim>\<open>result.get("response", "").strip()\<close>: \<open>None\<close> when it raises (\<open>result\<close> is not an
  object, or the member is not a string).
\<close>

fun ollama_text :: "json \<Rightarrow> pystr option" where
  "ollama_text (JObj d) =
     (case (case map_of d key_response of None \<Rightarrow> JStr [] | Some v \<Rightarrow> v) of
        JStr s \<Rightarrow> Some (strip s)
      | _ \<Rightarrow> None)"
| "ollama_text _ = None"

definition generate_with_ollama ::
  "world \<Rightarrow> service \<Rightarrow> pystr \<Rightarrow> pystr \<Rightarrow> trace \<Rightarrow> pystr option \<times> trace" where
  "generate_with_ollama w self user_message system_prompt tr =
     (let (alive, tr1) = check_ollama w self tr in
      if \<not> alive then (None, tr1)
      else
        let c = OllamaGenerate (ollama_url self)
                  (system_prompt @ ollama_prompt_middle @ user_message @ ollama_prompt_suffix);
            tr2 = tr1 @ [c]
        in case requests w tr1 c of
             HttpRaised \<Rightarrow> (None, tr2)
           | HttpResponse status_code body \<Rightarrow>
               if status_code = 200 then
                 (case body of
                    None \<Rightarrow> (None, tr2)
                  | Some result \<Rightarrow> (ollama_text result, tr2))
               else (None, tr2))"

subsection \<open>The response generator\<close>

text \<open>\<^verbatim>\<open>openai_service.py\<close>, line 178.\<close>

definition UNCONFIGURED_REPLY :: pystr where
  "UNCONFIGURED_REPLY = [25265, 27465, 65292, 65, 73, 32, 26381, 21209, 30446, 21069, 28961,
     27861, 20351, 29992, 12290, 35531, 31245, 24460, 20877, 35430, 12290]"

text \<open>\<^verbatim>\<open>openai_service.py\<close>, line 181.\<close>

definition system_prompt :: pystr where
  "system_prompt = [20320, 26159, 19968, 20491, 21451, 21892, 19988, 27138, 26044, 21161,
     20154, 30340, 32842, 22825, 27231, 22120, 20154, 12290, 35531, 29992, 32321, 39636,
     20013, 25991, 22238, 25033, 29992, 25142, 12290, 10, 29305, 40670, 65306, 10, 45, 32,
     21451, 21892, 12289, 26377, 31150, 35980, 10, 45, 32, 25552, 20379, 26377, 29992,
     30340, 36039, 35338, 21644, 24314, 35696, 10, 45, 32, 20445, 25345, 23565, 35441,
     33258, 28982, 27969, 26274, 10, 45, 32, 22914, 26524, 19981, 30906, 23450, 31572,
     26696, 65292, 26371, 35488, 23526, 21578, 30693, 10, 45, 32, 36991, 20813, 25552,
     20379, 26377, 23475, 25110, 19981, 30070, 30340, 20839, 23481]"

text \<open>\<^verbatim>\<open>openai_service.py\<close>, line 191.\<close>

definition GREETING_REPLY :: pystr where
  "GREETING_REPLY = [20320, 22909, 65281, 25105, 26159, 20320, 30340, 26234, 33021, 21161,
     25163, 65292, 26377, 20160, 40636, 21487, 20197, 24171, 21161, 20320, 30340, 21966,
     65311]"

text \<open>\<^verbatim>\<open>openai_service.py\<close>, line 194.\<close>

definition HELP_REPLY :: pystr where
  "HELP_REPLY = [25105, 21487, 20197, 24171, 21161, 20320, 65306, 10, 8226, 32, 22238,
     31572, 21508, 31278, 21839, 38988, 10, 8226, 32, 36914, 34892, 26085, 24120, 23565,
     35441, 10, 8226, 32, 25552, 20379, 36039, 35338, 21644, 24314, 35696, 10, 8226, 32,
     35299, 37323, 27010, 24565, 21644, 30693, 35672, 10, 10, 30452, 25509, 36664, 20837,
     20320, 30340, 21839, 38988, 25110, 24819, 32842, 30340, 35441, 38988, 23601, 21487,
     20197, 20102, 65281]"

text \<open>\<^verbatim>\<open>openai_service.py\<close>, line 249.\<close>

definition FINAL_REPLY :: pystr where
  "FINAL_REPLY = [25265, 27465, 65292, 65, 73, 32, 26381, 21209, 30446, 21069, 28961, 27861,
     20351, 29992, 12290, 35531, 31245, 24460, 20877, 35430, 25110, 32879, 32097, 31649,
     29702, 21729, 12290]"

text \<open>\<^verbatim>\<open>openai_service.py\<close>, line 190.\<close>

definition greeting_commands :: "pystr list" where
  "greeting_commands = [[104, 105], [104, 101, 108, 108, 111], [20320, 22909], [21992]]"

text \<open>\<^verbatim>\<open>openai_service.py\<close>, line 193.\<close>

definition help_commands :: "pystr list" where
  "help_commands = [[104, 101, 108, 112], [24171, 21161], [35498, 26126]]"

text \<open>
  The \<^verbatim>\<open>return\<close> statements of \<^verbatim>\<open>generate_response\<close>, in the order of the source. The
  model returns, with the value, the statement that produced it.
\<close>

datatype return_site =
    Unconfigured
  | GreetingCommand
  | HelpCommand
  | FromOpenAI
  | FromGemini
  | FromHuggingFace
  | FromOllama
  | FromFallback
  | FinalFallback

text \<open>The truth value of an adapter's result in \<^verbatim>\<open>if gemini_response:\<close>.\<close>

fun truthy :: "pystr option \<Rightarrow> bool" where
  "truthy None = False"
| "truthy (Some s) = (s \<noteq> [])"

text \<open>
  The block \<^verbatim>\<open>if self.openai_client: try: ... except Exception\<close>: \<open>Some v\<close> when its
  \<^verbatim>\<open>return ai_response\<close> is reached with \<open>v\<close> (a string or \<^verbatim>\<open>None\<close>), \<open>None\<close> when the
  block is skipped or left through the handler (the call raises, \<^verbatim>\<open>choices[0]\<close> raises on
  an empty list).
\<close>

definition try_openai ::
  "world \<Rightarrow> service \<Rightarrow> pystr \<Rightarrow> trace \<Rightarrow> pystr option option \<times> trace" where
  "try_openai w self user_message tr =
     (if openai_client self then
        let c = OpenAIChat system_prompt user_message;
            returned = (case openai w tr c of
                          OpenAIRaised \<Rightarrow> None
                        | Completion [] \<Rightarrow> None
                        | Completion (ai_response # choices) \<Rightarrow>
                            Some (map_option strip ai_response))
        in (returned, tr @ [c])
      else (None, tr))"

definition generate_response ::
  "world \<Rightarrow> service \<Rightarrow> pystr \<Rightarrow> trace \<Rightarrow> (return_site \<times> pystr option) \<times> trace" where
  "generate_response w self user_message tr =
     (let (configured, tr0) = is_configured w self tr in
      if \<not> configured then ((Unconfigured, Some UNCONFIGURED_REPLY), tr0)
      else if str_lower w user_message \<in> set greeting_commands
      then ((GreetingCommand, Some GREETING_REPLY), tr0)
      else if str_lower w user_message \<in> set help_commands
      then ((HelpCommand, Some HELP_REPLY), tr0)
      else
        let (openai_returned, tr1) = try_openai w self user_message tr0 in
        case openai_returned of
          Some ai_response \<Rightarrow> ((FromOpenAI, ai_response), tr1)
        | None \<Rightarrow>
            let (gemini_response, tr2) =
                  generate_with_gemini w self user_message system_prompt tr1 in
            if truthy gemini_response then ((FromGemini, gemini_response), tr2)
            else
              let (hf_response, tr3) =
                    generate_with_huggingface w self user_message system_prompt tr2 in
              if truthy hf_response then ((FromHuggingFace, hf_response), tr3)
              else
                let (ollama_response, tr4) =
                      generate_with_ollama w self user_message system_prompt tr3 in
                if truthy ollama_response then ((FromOllama, ollama_response), tr4)
                else
                  let fallback_response =
                        generate_fallback_response (str_lower w) user_message in
                  if fallback_response \<noteq> [] then ((FromFallback, Some fallback_response), tr4)
                  else ((FinalFallback, Some FINAL_REPLY), tr4))"

section \<open>The LINE bot\<close>

text \<open>\<^verbatim>\<open>line_bot.py\<close>, line 31: \<^verbatim>\<open>LINE Bot is not configured\<close>.\<close>

definition NOT_CONFIGURED :: pystr where
  "NOT_CONFIGURED = [76, 73, 78, 69, 32, 66, 111, 116, 32, 105, 115, 32, 110, 111, 116, 32,
     99, 111, 110, 102, 105, 103, 117, 114, 101, 100]"

text \<open>\<^verbatim>\<open>line_bot.py\<close>, line 38: \<^verbatim>\<open>Invalid signature\<close>.\<close>

definition INVALID_SIGNATURE :: pystr where
  "INVALID_SIGNATURE = [73, 110, 118, 97, 108, 105, 100, 32, 115, 105, 103, 110, 97, 116,
     117, 114, 101]"

text \<open>\<^verbatim>\<open>line_bot.py\<close>, line 58: \<^verbatim>\<open>Failed to send message: \<close>.\<close>

definition SEND_FAILED_PREFIX :: pystr where
  "SEND_FAILED_PREFIX = [70, 97, 105, 108, 101, 100, 32, 116, 111, 32, 115, 101, 110, 100,
     32, 109, 101, 115, 115, 97, 103, 101, 58, 32]"

text \<open>
  \<^verbatim>\<open>LineBot.__init__\<close> creates the API client and the handler only when both
  credentials are there; \<^verbatim>\<open>LineBot.is_configured\<close> tests that both exist.
\<close>

record line_bot =
  channel_access_token :: pystr
  channel_secret :: pystr

definition line_bot_is_configured :: "line_bot \<Rightarrow> bool" where
  "line_bot_is_configured self = (channel_access_token self \<noteq> [] \<and> channel_secret self \<noteq> [])"

text \<open>
  The two classes of \<^verbatim>\<open>linebot.webhook\<close>. \<^verbatim>\<open>parse(body, signature)\<close> is a method of
  \<^verbatim>\<open>WebhookParser\<close>; a \<^verbatim>\<open>WebhookHandler\<close> has the methods \<^verbatim>\<open>add\<close>, \<^verbatim>\<open>default\<close> and
  \<^verbatim>\<open>handle\<close> and no attribute \<^verbatim>\<open>parse\<close>. The handler of the bot is the object made in
  line 17 of \<^verbatim>\<open>line_bot.py\<close>, \<^verbatim>\<open>WebhookHandler(self.channel_secret)\<close>.
\<close>

datatype sdk_class = WebhookHandler | WebhookParser

fun has_parse :: "sdk_class \<Rightarrow> bool" where
  "has_parse WebhookParser = True"
| "has_parse WebhookHandler = False"

definition handler_class :: sdk_class where
  "handler_class = WebhookHandler"

text \<open>
  The message of the \<^verbatim>\<open>AttributeError\<close> that \<^verbatim>\<open>self.handler.parse\<close> raises:
  \<^verbatim>\<open>'WebhookHandler' object has no attribute 'parse'\<close>.
\<close>

definition NO_ATTRIBUTE_PARSE :: pystr where
  "NO_ATTRIBUTE_PARSE = [39, 87, 101, 98, 104, 111, 111, 107, 72, 97, 110, 100, 108, 101,
     114, 39, 32, 111, 98, 106, 101, 99, 116, 32, 104, 97, 115, 32, 110, 111, 32, 97, 116,
     116, 114, 105, 98, 117, 116, 101, 32, 39, 112, 97, 114, 115, 101, 39]"

text \<open>
  \<^verbatim>\<open>parse_webhook\<close> and \<^verbatim>\<open>reply_message\<close>: \<open>Inl e\<close> when \<open>e\<close> is raised. In
  \<^verbatim>\<open>self.handler.parse(body, signature)\<close> the attribute is looked up first; the error of
  a missing attribute is no \<^verbatim>\<open>InvalidSignatureError\<close>, so the second handler raises it
  again.
\<close>

definition parse_webhook ::
  "world \<Rightarrow> line_bot \<Rightarrow> pystr \<Rightarrow> pystr \<Rightarrow> trace \<Rightarrow> (exn + event list) \<times> trace" where
  "parse_webhook w self body signature tr =
     (if \<not> line_bot_is_configured self then (Inl (Exception NOT_CONFIGURED), tr)
      else if \<not> has_parse handler_class then (Inl (Exception NO_ATTRIBUTE_PARSE), tr)
      else
        let c = LineParse body signature; tr' = tr @ [c]
        in case line_parse w tr c of
             InvalidSignatureError \<Rightarrow> (Inl (Exception INVALID_SIGNATURE), tr')
           | ParseRaised e \<Rightarrow> (Inl e, tr')
           | Events events \<Rightarrow> (Inr events, tr'))"

definition reply_message ::
  "world \<Rightarrow> line_bot \<Rightarrow> pystr \<Rightarrow> pystr option \<Rightarrow> trace \<Rightarrow> (exn + unit) \<times> trace" where
  "reply_message w self reply_token message_text tr =
     (if \<not> line_bot_is_configured self then (Inl (Exception NOT_CONFIGURED), tr)
      else
        let c = LineReply reply_token message_text; tr' = tr @ [c]
        in case line_reply w tr c of
             LineBotApiError m \<Rightarrow> (Inl (Exception (SEND_FAILED_PREFIX @ m)), tr')
           | ReplyRaised e \<Rightarrow> (Inl e, tr')
           | ReplySent \<Rightarrow> (Inr (), tr'))"

section \<open>The web application\<close>

text \<open>\<^verbatim>\<open>app.py\<close>, line 73: \<^verbatim>\<open>message\<close>.\<close>

definition key_message :: pystr where
  "key_message = [109, 101, 115, 115, 97, 103, 101]"

text \<open>\<^verbatim>\<open>app.py\<close>, line 76: \<^verbatim>\<open>error\<close>.\<close>

definition key_error :: pystr where
  "key_error = [101, 114, 114, 111, 114]"

text \<open>\<^verbatim>\<open>app.py\<close>, line 47: \<^verbatim>\<open>message\<close>.\<close>

definition type_message :: pystr where
  "type_message = [109, 101, 115, 115, 97, 103, 101]"

text \<open>\<^verbatim>\<open>app.py\<close>, line 47: \<^verbatim>\<open>text\<close>.\<close>

definition type_text :: pystr where
  "type_text = [116, 101, 120, 116]"

text \<open>\<^verbatim>\<open>app.py\<close>, line 62: \<^verbatim>\<open>OK\<close>.\<close>

definition body_OK :: pystr where
  "body_OK = [79, 75]"

text \<open>\<^verbatim>\<open>app.py\<close>, line 66: \<^verbatim>\<open>Error\<close>.\<close>

definition body_Error :: pystr where
  "body_Error = [69, 114, 114, 111, 114]"

text \<open>\<^verbatim>\<open>app.py\<close>, line 76: \<^verbatim>\<open>Message is required\<close>.\<close>

definition MESSAGE_REQUIRED :: pystr where
  "MESSAGE_REQUIRED = [77, 101, 115, 115, 97, 103, 101, 32, 105, 115, 32, 114, 101, 113,
     117, 105, 114, 101, 100]"

text \<open>
  The message of the \<^verbatim>\<open>AttributeError\<close> that \<^verbatim>\<open>event.source.user_id\<close> raises on an
  event without source: \<^verbatim>\<open>'NoneType' object has no attribute 'user_id'\<close>.
\<close>

definition NO_ATTRIBUTE_USER_ID :: pystr where
  "NO_ATTRIBUTE_USER_ID = [39, 78, 111, 110, 101, 84, 121, 112, 101, 39, 32, 111, 98, 106,
     101, 99, 116, 32, 104, 97, 115, 32, 110, 111, 32, 97, 116, 116, 114, 105, 98, 117, 116,
     101, 32, 39, 117, 115, 101, 114, 95, 105, 100, 39]"

text \<open>
  The loop \<^verbatim>\<open>for event in events\<close> of \<^verbatim>\<open>webhook\<close>, on the events still to process:
  \<open>Inl e\<close> when \<open>e\<close> leaves the loop. The user is read, for the log, before the
  response is generated.
\<close>

fun process_events ::
  "world \<Rightarrow> line_bot \<Rightarrow> service \<Rightarrow> event list \<Rightarrow> trace \<Rightarrow> (exn + unit) \<times> trace" where
  "process_events w line_bot openai_service [] tr = (Inr (), tr)"
| "process_events w line_bot openai_service (event # events) tr =
     (if event_type event = type_message \<and> msg_type (event_message event) = type_text
      then
        let user_message = msg_text (event_message event) in
        case event_source event of
          None \<Rightarrow> (Inl (Exception NO_ATTRIBUTE_USER_ID), tr)
        | Some (Source user_id) \<Rightarrow>
            (let (ai_response, tr1) = generate_response w openai_service user_message tr;
                 (sent, tr2) =
                   reply_message w line_bot (event_reply_token event) (snd ai_response) tr1
             in (case sent of
                   Inl e \<Rightarrow> (Inl e, tr2)
                 | Inr u \<Rightarrow> process_events w line_bot openai_service events tr2))
      else process_events w line_bot openai_service events tr)"

text \<open>
  \<^verbatim>\<open>webhook\<close>, on the signature header and the body of the request: the body and the
  status of the HTTP response.
\<close>

definition webhook ::
  "world \<Rightarrow> line_bot \<Rightarrow> service \<Rightarrow> pystr \<Rightarrow> pystr \<Rightarrow> trace \<Rightarrow> (pystr \<times> nat) \<times> trace" where
  "webhook w line_bot openai_service signature body tr =
     (let (parsed, tr1) = parse_webhook w line_bot body signature tr in
      case parsed of
        Inl e \<Rightarrow> ((body_Error, 500), tr1)
      | Inr events \<Rightarrow>
          (let (done, tr2) = process_events w line_bot openai_service events tr1 in
           (case done of
              Inl e \<Rightarrow> ((body_Error, 500), tr2)
            | Inr u \<Rightarrow> ((body_OK, 200), tr2))))"

text \<open>
  What \<^verbatim>\<open>request.get_json()\<close> gives \<^verbatim>\<open>test_message\<close>: it raises, or it returns the
  decoded body. The endpoint takes a JSON object whose members are strings.
\<close>

datatype payload = NotJson exn | Object "(pystr \<times> pystr) list"

text \<open>\<^verbatim>\<open>test_message\<close>: the JSON body and the status of the HTTP response.\<close>

definition test_message ::
  "world \<Rightarrow> service \<Rightarrow> payload \<Rightarrow> trace \<Rightarrow> (json \<times> nat) \<times> trace" where
  "test_message w openai_service request_json tr =
     (case request_json of
        NotJson (Exception m) \<Rightarrow> ((JObj [(key_error, JStr m)], 500), tr)
      | Object data \<Rightarrow>
          let message = (case map_of data key_message of None \<Rightarrow> [] | Some v \<Rightarrow> v) in
          if message = [] then ((JObj [(key_error, JStr MESSAGE_REQUIRED)], 400), tr)
          else
            let (response, tr1) = generate_response w openai_service message tr in
            ((JObj [(key_response, case snd response of None \<Rightarrow> JNull | Some s \<Rightarrow> JStr s)],
              200), tr1))"

section \<open>The specification's notions\<close>

text \<open>
  The substring relation, and the responder as the specification words it: six keyword
  sets tried in the order greeting, help, time and date, weather, thanks, goodbye; the
  reply of the first set of which a keyword is a substring of the lower-cased message;
  the generic reply when there is none.
\<close>

definition is_substring :: "pystr \<Rightarrow> pystr \<Rightarrow> bool" where
  "is_substring p s = (\<exists>a b. s = a @ p @ b)"

definition keyword_table :: "(pystr list \<times> pystr) list" where
  "keyword_table =
     [(greeting_words, FALLBACK_GREETING), (help_words, FALLBACK_HELP),
      (time_words, FALLBACK_TIME), (weather_words, FALLBACK_WEATHER),
      (thanks_words, FALLBACK_THANKS), (goodbye_words, FALLBACK_GOODBYE)]"

fun first_matched :: "(pystr list \<times> pystr) list \<Rightarrow> pystr \<Rightarrow> pystr" where
  "first_matched [] s = FALLBACK_DEFAULT"
| "first_matched ((ws, reply) # rest) s =
     (if (\<exists>w. w \<in> set ws \<and> is_substring w s) then reply else first_matched rest s)"

definition respond :: "(pystr \<Rightarrow> pystr) \<Rightarrow> pystr \<Rightarrow> pystr" where
  "respond lower user_message = first_matched keyword_table (lower user_message)"

text \<open>
  Every adapter returns no result: run one after the other from the trace \<open>tr0\<close>, the
  OpenAI block leaves through its handler (or is skipped) and the three adapter functions
  return \<^verbatim>\<open>None\<close> or an empty string.
\<close>

definition adapters_no_result :: "world \<Rightarrow> service \<Rightarrow> pystr \<Rightarrow> trace \<Rightarrow> bool" where
  "adapters_no_result w self user_message tr0 =
     (let (openai_returned, tr1) = try_openai w self user_message tr0;
          (gemini_response, tr2) = generate_with_gemini w self user_message system_prompt tr1;
          (hf_response, tr3) = generate_with_huggingface w self user_message system_prompt tr2;
          (ollama_response, tr4) = generate_with_ollama w self user_message system_prompt tr3
      in openai_returned = None \<and> \<not> truthy gemini_response \<and> \<not> truthy hf_response
         \<and> \<not> truthy ollama_response)"

text \<open>The calls of the reply API in a trace.\<close>

fun is_reply :: "call \<Rightarrow> bool" where
  "is_reply (LineReply reply_token message_text) = True"
| "is_reply c = False"


section \<open>Example worlds and configurations\<close>

text \<open>
  A world in which nothing answers: every request and every client call raises, and the
  webhook parser rejects every signature.
\<close>

definition offline_world :: world where
  "offline_world =
     \<lparr>str_lower = ascii_lower,
      requests = (\<lambda>tr c. HttpRaised),
      openai = (\<lambda>tr c. OpenAIRaised),
      gemini = (\<lambda>tr c. GeminiRaised),
      line_parse = (\<lambda>tr c. InvalidSignatureError),
      line_reply = (\<lambda>tr c. ReplySent)\<rparr>"

text \<open>
  A world in which OpenAI answers with one choice of the given content, and Gemini would
  answer \<^verbatim>\<open>ok\<close>.
\<close>

definition openai_world :: "pystr option \<Rightarrow> world" where
  "openai_world content =
     offline_world\<lparr>openai := (\<lambda>tr c. Completion [content]),
                   gemini := (\<lambda>tr c. GeminiText [111, 107])\<rparr>"



text \<open>
  A world in which the parser of the SDK accepts every request and returns the events.
\<close>

definition line_world :: "event list \<Rightarrow> world" where
  "line_world events = offline_world\<lparr>line_parse := (\<lambda>tr c. Events events)\<rparr>"

text \<open>The same, with a reply API that rejects every reply.\<close>

definition rejecting_world :: "event list \<Rightarrow> world" where
  "rejecting_world events =
     (line_world events)\<lparr>line_reply := (\<lambda>tr c. LineBotApiError [110, 111])\<rparr>"

text \<open>
  A text message \<^verbatim>\<open>Hi\<close> from user \<^verbatim>\<open>U1\<close> with reply token \<^verbatim>\<open>tok\<close>.
\<close>

definition text_event :: event where
  "text_event =
     \<lparr>event_type = type_message,
      event_message = \<lparr>msg_type = type_text, msg_text = [72, 105]\<rparr>,
      event_source = Some (Source (Some [85, 49])),
      event_reply_token = [116, 111, 107]\<rparr>"

text \<open>
  Services: no credential at all (the Ollama address is the default one,
  \<^verbatim>\<open>http://localhost:11434\<close>), and the same with one credential each.
\<close>

definition unconfigured_service :: service where
  "unconfigured_service =
     \<lparr>openai_key = [],
      ollama_url = [104, 116, 116, 112, 58, 47, 47, 108, 111, 99, 97, 108, 104, 111, 115,
        116, 58, 49, 49, 52, 51, 52],
      hf_token = [],
      gemini_key = [],
      anthropic_key = []\<rparr>"

definition anthropic_service :: service where
  "anthropic_service = unconfigured_service\<lparr>anthropic_key := [107, 101, 121]\<rparr>"

definition openai_gemini_service :: service where
  "openai_gemini_service =
     unconfigured_service\<lparr>openai_key := [115, 107], gemini_key := [107, 101, 121]\<rparr>"


definition configured_bot :: line_bot where
  "configured_bot = \<lparr>channel_access_token = [116, 111, 107], channel_secret = [115, 105, 103]\<rparr>"

definition unconfigured_bot :: line_bot where
  "unconfigured_bot = \<lparr>channel_access_token = [116, 111, 107], channel_secret = []\<rparr>"

section \<open>Properties of the substring test\<close>

lemma startswith_iff: "startswith s p \<longleftrightarrow> (\<exists>b. s = p @ b)"
  by (induction s p rule: startswith.induct) auto

lemma contains_iff: "contains s p \<longleftrightarrow> is_substring p s"
proof (induction s)
  case Nil
  then show ?case by (auto simp: is_substring_def)
next
  case (Cons c cs)
  show ?case
  proof
    assume "contains (c # cs) p"
    then consider "startswith (c # cs) p" | "contains cs p" by auto
    then show "is_substring p (c # cs)"
    proof cases
      case 1
      then obtain b where "c # cs = p @ b" using startswith_iff by blast
      then have "c # cs = [] @ p @ b" by simp
      then show ?thesis unfolding is_substring_def by blast
    next
      case 2
      then obtain a b where "cs = a @ p @ b" using Cons.IH is_substring_def by auto
      then have "c # cs = (c # a) @ p @ b" by simp
      then show ?thesis unfolding is_substring_def by blast
    qed
  next
    assume "is_substring p (c # cs)"
    then obtain a b where ab: "c # cs = a @ p @ b" unfolding is_substring_def by blast
    show "contains (c # cs) p"
    proof (cases a)
      case Nil
      then have "startswith (c # cs) p" using ab startswith_iff by auto
      then show ?thesis by simp
    next
      case (Cons x a')
      then have "cs = a' @ p @ b" using ab by simp
      then have "contains cs p" using Cons.IH is_substring_def by blast
      then show ?thesis by simp
    qed
  qed
qed

lemma contains_self: "contains s s"
proof -
  have "s = [] @ s @ []" by simp
  then have "is_substring s s" unfolding is_substring_def by blast
  then show ?thesis by (simp add: contains_iff)
qed

lemma any_in_iff: "any_in ws s \<longleftrightarrow> (\<exists>w. w \<in> set ws \<and> is_substring w s)"
  by (induction ws) (auto simp: contains_iff)

lemma any_in_member: "s \<in> set ws \<Longrightarrow> any_in ws s"
  by (induction ws) (auto simp: contains_self)

section \<open>Properties of the rule-based responder\<close>

lemma fallback_nonempty: "generate_fallback_response lower user_message \<noteq> []"
  by (simp add: generate_fallback_response_def Let_def FALLBACK_GREETING_def FALLBACK_HELP_def
      FALLBACK_TIME_def FALLBACK_WEATHER_def FALLBACK_THANKS_def FALLBACK_GOODBYE_def
      FALLBACK_DEFAULT_def)

text \<open>
  C5. The responder is a function of the message alone (and of the lower-casing of the
  runtime), defined on every string, and it is the responder of the specification: on
  the lower-cased message the keyword sets are tried by substring in the order greeting,
  help, time and date, weather, thanks, goodbye, the reply of the first set that matches
  is returned, and the generic reply when none matches.
\<close>

theorem fallback_refines_respond:
  "generate_fallback_response lower user_message = respond lower user_message"
  by (simp add: generate_fallback_response_def respond_def keyword_table_def Let_def
      any_in_iff [symmetric])

text \<open>
  C9. The responder returns a non-empty string on every message, and
  \<^verbatim>\<open>generate_response\<close> never returns through its last statement, the one after the
  responder's reply has been tested.
\<close>

theorem final_return_unreachable:
  "generate_fallback_response (str_lower w) user_message \<noteq> []
   \<and> fst (fst (generate_response w self user_message tr)) \<noteq> FinalFallback"
  by (simp add: fallback_nonempty generate_response_def Let_def split: prod.splits option.splits)

section \<open>Properties of the response generator\<close>

lemma check_ollama_trace: "snd (check_ollama w self tr) = tr @ [OllamaTags (ollama_url self)]"
  by (simp add: check_ollama_def Let_def)

lemma is_configured_trace:
  "snd (is_configured w self tr) = tr
   \<or> snd (is_configured w self tr) = tr @ [OllamaTags (ollama_url self)]"
  by (simp add: is_configured_def check_ollama_trace)

lemma commands_disjoint: "s \<in> set greeting_commands \<Longrightarrow> s \<notin> set help_commands"
  by (auto simp: greeting_commands_def help_commands_def)

text \<open>
  Every \<^verbatim>\<open>return\<close> of \<^verbatim>\<open>generate_response\<close> but the one of the OpenAI block returns a
  non-empty string.
\<close>

lemma truthy_nonempty: "truthy r \<Longrightarrow> \<exists>s. r = Some s \<and> s \<noteq> []"
  by (cases r) auto

lemma generate_response_nonempty_elsewhere:
  assumes "fst (fst (generate_response w self user_message tr)) \<noteq> FromOpenAI"
  shows "\<exists>s. snd (fst (generate_response w self user_message tr)) = Some s \<and> s \<noteq> []"
proof -
  have k: "UNCONFIGURED_REPLY \<noteq> []" "GREETING_REPLY \<noteq> []" "HELP_REPLY \<noteq> []" "FINAL_REPLY \<noteq> []"
    by (simp_all add: UNCONFIGURED_REPLY_def GREETING_REPLY_def HELP_REPLY_def FINAL_REPLY_def)
  show ?thesis
    using assms k fallback_nonempty [of "str_lower w" user_message]
    by (auto simp: generate_response_def Let_def dest: truthy_nonempty
        split: prod.splits option.splits if_splits)
qed

text \<open>
  C1. The specification has \<^verbatim>\<open>generate_response\<close> return a non-empty string on
  every message. The OpenAI block returns the content of the first choice whatever it is: when
  OpenAI answers with an empty content the empty string is returned, and when it answers
  with no content \<^verbatim>\<open>None\<close> is returned.
\<close>

theorem generate_response_empty_reply:
  "fst (generate_response (openai_world (Some [])) openai_gemini_service
          [119, 104, 97, 116, 63] [])
     = (FromOpenAI, Some [])
   \<and> fst (generate_response (openai_world None) openai_gemini_service
            [119, 104, 97, 116, 63] [])
     = (FromOpenAI, None)"
  by (simp add: generate_response_def is_configured_def openai_client_def try_openai_def
      openai_world_def offline_world_def openai_gemini_service_def unconfigured_service_def
      ascii_lower_def greeting_commands_def help_commands_def strip_def)

text \<open>
  C2 as the specification states it fails where no adapter is configured and Ollama is not
  reachable: the message \<^verbatim>\<open>hi\<close> is answered with the reply of the unconfigured
  service.
\<close>

theorem greeting_unconfigured_counterexample:
  "fst (generate_response offline_world unconfigured_service [104, 105] [])
     = (Unconfigured, Some UNCONFIGURED_REPLY)
   \<and> UNCONFIGURED_REPLY \<noteq> GREETING_REPLY"
  by (simp add: generate_response_def is_configured_def check_ollama_def openai_client_def
      offline_world_def unconfigured_service_def UNCONFIGURED_REPLY_def GREETING_REPLY_def)

text \<open>
  C2, amended. For a message whose lower-cased form is one of the greeting commands
  (\<^verbatim>\<open>hi\<close>, \<^verbatim>\<open>hello\<close> and the two Chinese greetings), \<^verbatim>\<open>generate_response\<close> returns
  the fixed greeting when the service is configured and the reply of the unconfigured
  service when it is not. No adapter is called: the only call there can be is the Ollama
  probe of \<^verbatim>\<open>is_configured\<close>.
\<close>

theorem greeting_command_reply:
  assumes "str_lower w user_message \<in> set greeting_commands"
  shows "generate_response w self user_message tr =
           (if fst (is_configured w self tr) then (GreetingCommand, Some GREETING_REPLY)
            else (Unconfigured, Some UNCONFIGURED_REPLY),
            snd (is_configured w self tr))
         \<and> (snd (is_configured w self tr) = tr
            \<or> snd (is_configured w self tr) = tr @ [OllamaTags (ollama_url self)])"
  using assms is_configured_trace [of w self tr]
  by (simp add: generate_response_def split: prod.splits)

text \<open>The message \<^verbatim>\<open>Hi\<close>, with a service that has one credential.\<close>

theorem greeting_command_reply_witness:
  "generate_response offline_world anthropic_service [72, 105] []
     = ((GreetingCommand, Some GREETING_REPLY), [])"
proof -
  have 1: "str_lower offline_world [72, 105] \<in> set greeting_commands"
    by (simp add: offline_world_def ascii_lower_def greeting_commands_def)
  have 2: "is_configured offline_world anthropic_service [] = (True, [])"
    by (simp add: is_configured_def anthropic_service_def unconfigured_service_def)
  show ?thesis
    using greeting_command_reply [OF 1, of anthropic_service "[]"] by (simp add: 2)
qed

text \<open>
  OpenAI's content, when there is one, is returned stripped and nothing is called after
  it; Gemini's non-empty text is returned when the OpenAI block gave nothing.
\<close>

lemma primary_reply_returned:
  assumes "is_configured w self tr = (True, tr0)"
    and "str_lower w user_message \<notin> set greeting_commands"
    and "str_lower w user_message \<notin> set help_commands"
    and "openai_client self"
    and "openai w tr0 (OpenAIChat system_prompt user_message) = Completion (Some text # choices)"
  shows "generate_response w self user_message tr
           = ((FromOpenAI, Some (strip text)), tr0 @ [OpenAIChat system_prompt user_message])"
  using assms by (simp add: generate_response_def try_openai_def)

lemma secondary_reply_returned:
  assumes "is_configured w self tr = (True, tr0)"
    and "str_lower w user_message \<notin> set greeting_commands"
    and "str_lower w user_message \<notin> set help_commands"
    and "try_openai w self user_message tr0 = (None, tr1)"
    and "generate_with_gemini w self user_message system_prompt tr1 = (Some text, tr2)"
    and "text \<noteq> []"
  shows "generate_response w self user_message tr = ((FromGemini, Some text), tr2)"
  using assms by (simp add: generate_response_def)

text \<open>
  C4. The specification has the first adapter with a non-empty result win. When OpenAI
  answers with an empty content, the empty string is returned as its result and Gemini,
  which would have answered \<^verbatim>\<open>ok\<close> after that call, is never called.
\<close>

theorem empty_primary_shadows_secondary:
  "generate_response (openai_world (Some [])) openai_gemini_service [119, 104, 97, 116, 63] []
     = ((FromOpenAI, Some []), [OpenAIChat system_prompt [119, 104, 97, 116, 63]])
   \<and> fst (generate_with_gemini (openai_world (Some [])) openai_gemini_service
            [119, 104, 97, 116, 63] system_prompt
            [OpenAIChat system_prompt [119, 104, 97, 116, 63]])
     = Some [111, 107]"
  by (simp add: generate_response_def is_configured_def openai_client_def try_openai_def
      openai_world_def offline_world_def openai_gemini_service_def unconfigured_service_def
      ascii_lower_def greeting_commands_def help_commands_def strip_def
      generate_with_gemini_def gemini_models_def isspace_def)

subsection \<open>The responder after the adapters\<close>

lemma not_greeting_command: "\<not> any_in greeting_words s \<Longrightarrow> s \<notin> set greeting_commands"
proof
  assume n: "\<not> any_in greeting_words s" and "s \<in> set greeting_commands"
  then have "s \<in> set greeting_words"
    by (auto simp: greeting_commands_def greeting_words_def)
  then show False using n any_in_member by blast
qed

lemma not_help_command: "\<not> any_in help_words s \<Longrightarrow> s \<notin> set help_commands"
proof
  assume n: "\<not> any_in help_words s" and "s \<in> set help_commands"
  then have "s \<in> set help_words"
    by (auto simp: help_commands_def help_words_def)
  then show False using n any_in_member by blast
qed

text \<open>
  When the service is configured, the message is no command and every adapter returns
  no result, the reply is the responder's.
\<close>

lemma adapters_no_result_fallback:
  assumes "fst (is_configured w self tr)"
    and "adapters_no_result w self user_message (snd (is_configured w self tr))"
    and "str_lower w user_message \<notin> set greeting_commands"
    and "str_lower w user_message \<notin> set help_commands"
  shows "fst (generate_response w self user_message tr)
           = (FromFallback, Some (generate_fallback_response (str_lower w) user_message))"
  using assms fallback_nonempty [of "str_lower w" user_message]
  by (auto simp: generate_response_def adapters_no_result_def Let_def split: prod.splits)

text \<open>
  C3 as the specification states it fails on the message \<^verbatim>\<open>thanks bye\<close>, which holds the
  keyword \<^verbatim>\<open>thank\<close> and the keyword \<^verbatim>\<open>bye\<close>: with every adapter returning no
  result, the reply is the one for thanks, not the one for goodbye.
\<close>

theorem thanks_goodbye_counterexample:
  "adapters_no_result offline_world anthropic_service [116, 104, 97, 110, 107, 115, 32, 98, 121, 101] []
   \<and> any_in thanks_words (str_lower offline_world [116, 104, 97, 110, 107, 115, 32, 98, 121, 101])
   \<and> any_in goodbye_words (str_lower offline_world [116, 104, 97, 110, 107, 115, 32, 98, 121, 101])
   \<and> fst (generate_response offline_world anthropic_service
            [116, 104, 97, 110, 107, 115, 32, 98, 121, 101] [])
       = (FromFallback, Some FALLBACK_THANKS)
   \<and> FALLBACK_THANKS \<noteq> FALLBACK_GOODBYE"
  by (simp add: adapters_no_result_def generate_response_def is_configured_def
      openai_client_def try_openai_def generate_with_gemini_def generate_with_huggingface_def
      generate_with_ollama_def check_ollama_def offline_world_def anthropic_service_def
      unconfigured_service_def ascii_lower_def greeting_commands_def help_commands_def
      generate_fallback_response_def greeting_words_def help_words_def time_words_def
      weather_words_def thanks_words_def goodbye_words_def FALLBACK_THANKS_def
      FALLBACK_GOODBYE_def)

text \<open>
  C3, amended. When the service is configured and every adapter returns no result, a
  message that holds a thanks keyword and a goodbye keyword, and no greeting, help, time
  or weather keyword, is answered with the responder's reply for thanks: thanks is
  tested before goodbye.
\<close>

theorem fallback_thanks_before_goodbye:
  assumes "fst (is_configured w self tr)"
    and "adapters_no_result w self user_message (snd (is_configured w self tr))"
    and "any_in thanks_words (str_lower w user_message)"
    and "any_in goodbye_words (str_lower w user_message)"
    and "\<not> any_in greeting_words (str_lower w user_message)"
    and "\<not> any_in help_words (str_lower w user_message)"
    and "\<not> any_in time_words (str_lower w user_message)"
    and "\<not> any_in weather_words (str_lower w user_message)"
  shows "fst (generate_response w self user_message tr) = (FromFallback, Some FALLBACK_THANKS)"
proof -
  have "generate_fallback_response (str_lower w) user_message = FALLBACK_THANKS"
    using assms by (simp add: generate_fallback_response_def)
  then show ?thesis
    using adapters_no_result_fallback [OF assms(1) assms(2)
        not_greeting_command [OF assms(5)] not_help_command [OF assms(6)]]
    by simp
qed

text \<open>The message \<^verbatim>\<open>thanks bye\<close>, with nothing answering.\<close>

theorem fallback_thanks_before_goodbye_witness:
  "fst (generate_response offline_world anthropic_service
          [116, 104, 97, 110, 107, 115, 32, 98, 121, 101] [])
     = (FromFallback, Some FALLBACK_THANKS)"
proof -
  let ?m = "[116, 104, 97, 110, 107, 115, 32, 98, 121, 101] :: pystr"
  have c: "is_configured offline_world anthropic_service [] = (True, [])"
    by (simp add: is_configured_def anthropic_service_def unconfigured_service_def)
  have l: "str_lower offline_world ?m = ?m"
    by (simp add: offline_world_def ascii_lower_def)
  have 1: "fst (is_configured offline_world anthropic_service [])" by (simp add: c)
  have 2: "adapters_no_result offline_world anthropic_service ?m
             (snd (is_configured offline_world anthropic_service []))"
    by (simp add: c adapters_no_result_def openai_client_def try_openai_def
        generate_with_gemini_def generate_with_huggingface_def generate_with_ollama_def
        check_ollama_def offline_world_def anthropic_service_def unconfigured_service_def)
  have 3: "any_in thanks_words (str_lower offline_world ?m)"
    by (simp add: l thanks_words_def)
  have 4: "any_in goodbye_words (str_lower offline_world ?m)"
    by (simp add: l goodbye_words_def)
  have 5: "\<not> any_in greeting_words (str_lower offline_world ?m)"
    by (simp add: l greeting_words_def)
  have 6: "\<not> any_in help_words (str_lower offline_world ?m)"
    by (simp add: l help_words_def)
  have 7: "\<not> any_in time_words (str_lower offline_world ?m)"
    by (simp add: l time_words_def)
  have 8: "\<not> any_in weather_words (str_lower offline_world ?m)"
    by (simp add: l weather_words_def)
  show ?thesis by (rule fallback_thanks_before_goodbye [OF 1 2 3 4 5 6 7 8])
qed

section \<open>Properties of the Hugging Face adapter\<close>








section \<open>Properties of the web application\<close>

text \<open>No function of the AI service calls the reply API.\<close>

lemma replies_is_configured: "filter is_reply (snd (is_configured w self tr)) = filter is_reply tr"
  by (simp add: is_configured_def check_ollama_trace)

lemma replies_try_openai: "filter is_reply (snd (try_openai w self m tr)) = filter is_reply tr"
  by (simp add: try_openai_def Let_def)

lemma replies_gemini_try_models:
  "filter is_reply (snd (gemini_try_models w m sp models tr)) = filter is_reply tr"
  by (induction models arbitrary: tr) (auto simp: Let_def split: gemini_result.splits)

lemma replies_gemini: "filter is_reply (snd (generate_with_gemini w self m sp tr)) = filter is_reply tr"
  by (simp add: generate_with_gemini_def replies_gemini_try_models)

lemma replies_hf_try_models:
  "filter is_reply (snd (hf_try_models w self m models tr)) = filter is_reply tr"
  by (induction models arbitrary: tr)
     (auto simp: Let_def split: http_result.splits option.splits)

lemma replies_hf: "filter is_reply (snd (generate_with_huggingface w self m sp tr)) = filter is_reply tr"
  by (auto simp: generate_with_huggingface_def Let_def replies_hf_try_models split: http_result.splits)

lemma replies_ollama: "filter is_reply (snd (generate_with_ollama w self m sp tr)) = filter is_reply tr"
  by (auto simp: generate_with_ollama_def Let_def check_ollama_def
      split: http_result.splits option.splits prod.splits)

lemma replies_generate_response:
  "filter is_reply (snd (generate_response w self m tr)) = filter is_reply tr"
proof -
  obtain cf tr0 where c: "is_configured w self tr = (cf, tr0)" by (cases "is_configured w self tr")
  obtain o1 tr1 where o: "try_openai w self m tr0 = (o1, tr1)" by (cases "try_openai w self m tr0")
  obtain g tr2 where g: "generate_with_gemini w self m system_prompt tr1 = (g, tr2)"
    by (cases "generate_with_gemini w self m system_prompt tr1")
  obtain h tr3 where h: "generate_with_huggingface w self m system_prompt tr2 = (h, tr3)"
    by (cases "generate_with_huggingface w self m system_prompt tr2")
  obtain l tr4 where l: "generate_with_ollama w self m system_prompt tr3 = (l, tr4)"
    by (cases "generate_with_ollama w self m system_prompt tr3")
  have 0: "filter is_reply tr0 = filter is_reply tr"
    using replies_is_configured [of w self tr] c by simp
  have 1: "filter is_reply tr1 = filter is_reply tr"
    using replies_try_openai [of w self m tr0] o 0 by simp
  have 2: "filter is_reply tr2 = filter is_reply tr"
    using replies_gemini [of w self m system_prompt tr1] g 1 by simp
  have 3: "filter is_reply tr3 = filter is_reply tr"
    using replies_hf [of w self m system_prompt tr2] h 2 by simp
  have 4: "filter is_reply tr4 = filter is_reply tr"
    using replies_ollama [of w self m system_prompt tr3] l 3 by simp
  show ?thesis
    by (simp add: generate_response_def Let_def c o g h l 0 1 2 3 4 split: option.splits)
qed

text \<open>
  What the loop of the handler does with one text message of a known source, when the
  bot is configured: the response is generated, the reply API is called once, last, with
  the reply token of the event and the generated value, and an exception of that call
  leaves the loop.
\<close>

lemma process_events_text_message:
  assumes "line_bot_is_configured line_bot"
    and "event_type event = type_message"
    and "msg_type (event_message event) = type_text"
    and "event_source event = Some src"
    and "generate_response w openai_service (msg_text (event_message event)) tr = (r, tr1)"
  shows "process_events w line_bot openai_service [event] tr =
           (case line_reply w tr1 (LineReply (event_reply_token event) (snd r)) of
              LineBotApiError m \<Rightarrow> Inl (Exception (SEND_FAILED_PREFIX @ m))
            | ReplyRaised e \<Rightarrow> Inl e
            | ReplySent \<Rightarrow> Inr (),
            tr1 @ [LineReply (event_reply_token event) (snd r)])"
    and "length (filter is_reply (snd (process_events w line_bot openai_service [event] tr)))
           = Suc (length (filter is_reply tr))"
proof -
  show 1: "process_events w line_bot openai_service [event] tr =
           (case line_reply w tr1 (LineReply (event_reply_token event) (snd r)) of
              LineBotApiError m \<Rightarrow> Inl (Exception (SEND_FAILED_PREFIX @ m))
            | ReplyRaised e \<Rightarrow> Inl e
            | ReplySent \<Rightarrow> Inr (),
            tr1 @ [LineReply (event_reply_token event) (snd r)])"
    using assms
    by (cases src) (simp add: reply_message_def Let_def split: reply_result.splits)
  have "filter is_reply tr1 = filter is_reply tr"
    using replies_generate_response [of w openai_service "msg_text (event_message event)" tr]
      assms(5)
    by simp
  then show "length (filter is_reply (snd (process_events w line_bot openai_service [event] tr)))
           = Suc (length (filter is_reply tr))"
    unfolding 1 by simp
qed

text \<open>
  The handler of the bot has no method \<^verbatim>\<open>parse\<close>, so \<^verbatim>\<open>parse_webhook\<close> raises on every
  request and the webhook answers every request with status 500 and body \<^verbatim>\<open>Error\<close>,
  without a call.
\<close>

lemma webhook_always_error:
  "webhook w line_bot openai_service signature body tr = ((body_Error, 500), tr)"
  by (simp add: webhook_def parse_webhook_def handler_class_def)

text \<open>
  C7. The specification has an accepted request with no event answered with status 200
  and body \<^verbatim>\<open>OK\<close>, and an accepted request with one text message answered by one call
  of the reply API. With a configured bot, and a parser that would accept the request
  and return no event, or the one text message, the webhook answers with status 500 and
  body \<^verbatim>\<open>Error\<close> and calls nothing: the parser is never reached.
\<close>

theorem webhook_rejects_accepted_requests:
  "webhook (line_world []) configured_bot anthropic_service [115, 105, 103] [123, 125] []
     = ((body_Error, 500), [])
   \<and> webhook (line_world [text_event]) configured_bot anthropic_service [115, 105, 103]
       [123, 125] []
     = ((body_Error, 500), [])
   \<and> line_bot_is_configured configured_bot"
  by (simp add: webhook_always_error line_bot_is_configured_def configured_bot_def)

text \<open>
  C10. When the access token or the channel secret is missing, every request to the
  webhook is answered with status 500 and body \<^verbatim>\<open>Error\<close>, whatever its body and
  signature, and nothing is called: \<^verbatim>\<open>parse_webhook\<close> raises before the parser runs.
\<close>

theorem webhook_unconfigured_bot:
  "\<not> line_bot_is_configured line_bot \<Longrightarrow>
   webhook w line_bot openai_service signature body tr = ((body_Error, 500), tr)"
  by (simp add: webhook_def parse_webhook_def)

theorem webhook_unconfigured_bot_witness:
  "webhook (line_world [text_event]) unconfigured_bot anthropic_service [115, 105, 103]
     [123, 125] []
     = ((body_Error, 500), [])"
proof -
  have "\<not> line_bot_is_configured unconfigured_bot"
    by (simp add: line_bot_is_configured_def unconfigured_bot_def)
  then show ?thesis by (rule webhook_unconfigured_bot)
qed

text \<open>
  C8 as the specification states it fails where no adapter is configured and Ollama is not
  reachable: the message \<^verbatim>\<open>help\<close> is answered with status 200 and the reply of the
  unconfigured service.
\<close>

theorem help_unconfigured_counterexample:
  "fst (test_message offline_world unconfigured_service
          (Object [(key_message, [104, 101, 108, 112])]) [])
     = (JObj [(key_response, JStr UNCONFIGURED_REPLY)], 200)
   \<and> UNCONFIGURED_REPLY \<noteq> HELP_REPLY"
  by (simp add: test_message_def generate_response_def is_configured_def check_ollama_def
      openai_client_def offline_world_def unconfigured_service_def UNCONFIGURED_REPLY_def
      HELP_REPLY_def)

text \<open>
  C8, amended. A body without the member \<^verbatim>\<open>message\<close>, or with an empty one, is
  answered with status 400 and the error \<^verbatim>\<open>Message is required\<close>, and nothing is
  called. A message whose lower-cased form is a help command is answered with status 200
  and, in the member \<^verbatim>\<open>response\<close>, the help menu when the service is configured and
  the reply of the unconfigured service when it is not.
\<close>

theorem test_message_contract:
  "(map_of data key_message = None \<or> map_of data key_message = Some [] \<longrightarrow>
      test_message w openai_service (Object data) tr
        = ((JObj [(key_error, JStr MESSAGE_REQUIRED)], 400), tr))
   \<and> (map_of data key_message = Some message \<and> message \<noteq> []
        \<and> str_lower w message \<in> set help_commands \<longrightarrow>
      fst (test_message w openai_service (Object data) tr)
        = (JObj [(key_response,
             JStr (if fst (is_configured w openai_service tr) then HELP_REPLY
                   else UNCONFIGURED_REPLY))], 200))"
  by (auto simp: test_message_def generate_response_def dest: commands_disjoint
      split: prod.splits)

text \<open>The bodies \<^verbatim>\<open>{}\<close> and \<^verbatim>\<open>{"message": "help"}\<close>, with a configured service.\<close>

theorem test_message_contract_witness:
  "test_message offline_world anthropic_service (Object []) []
     = ((JObj [(key_error, JStr MESSAGE_REQUIRED)], 400), [])
   \<and> fst (test_message offline_world anthropic_service
            (Object [(key_message, [104, 101, 108, 112])]) [])
     = (JObj [(key_response, JStr HELP_REPLY)], 200)"
proof -
  have 1: "map_of [(key_message, [104, 101, 108, 112])] key_message = Some [104, 101, 108, 112]"
    by simp
  have 2: "str_lower offline_world [104, 101, 108, 112] \<in> set help_commands"
    by (simp add: offline_world_def ascii_lower_def help_commands_def)
  have 3: "is_configured offline_world anthropic_service [] = (True, [])"
    by (simp add: is_configured_def anthropic_service_def unconfigured_service_def)
  show ?thesis
    using test_message_contract [where data = "[]" and w = offline_world
        and openai_service = anthropic_service and tr = "[]"]
      test_message_contract [where data = "[(key_message, [104, 101, 108, 112])]"
        and message = "[104, 101, 108, 112]" and w = offline_world
        and openai_service = anthropic_service and tr = "[]"] 1 2 3
    by simp
qed

end
